theory Spec2Isabelle
  imports Complex_Main "HOL-Library.Word"
begin

section \<open>Single-precision values\<close>

text \<open>
  The C type \<^verbatim>\<open>float\<close> is modelled by its value classes: a finite number, the two
  infinities and not-a-number. Finite arithmetic is exact (rounding, overflow to
  infinity and the sign of zero are not modelled); the special values follow IEEE 754:
  an undefined operation (\<open>0/0\<close>, \<open>\<infinity> - \<infinity>\<close>, \<open>0 * \<infinity>\<close>, the square root of a negative
  number, the sine or cosine of an infinity) is NaN, and NaN propagates through every
  operation. Rounding is added, for the bias estimator, in the section on rounded
  arithmetic below.
\<close>

datatype cfloat = Fin real | PInf | NInf | NaN

instantiation cfloat :: "{zero, uminus, plus, minus, times, inverse, ord}"
begin

definition zero_cfloat :: cfloat where
  "zero_cfloat = Fin 0"

fun uminus_cfloat :: "cfloat \<Rightarrow> cfloat" where
  "uminus_cfloat (Fin a) = Fin (- a)"
| "uminus_cfloat PInf = NInf"
| "uminus_cfloat NInf = PInf"
| "uminus_cfloat NaN = NaN"

fun plus_cfloat :: "cfloat \<Rightarrow> cfloat \<Rightarrow> cfloat" where
  "plus_cfloat NaN _ = NaN"
| "plus_cfloat _ NaN = NaN"
| "plus_cfloat (Fin a) (Fin b) = Fin (a + b)"
| "plus_cfloat PInf NInf = NaN"
| "plus_cfloat NInf PInf = NaN"
| "plus_cfloat PInf _ = PInf"
| "plus_cfloat _ PInf = PInf"
| "plus_cfloat NInf _ = NInf"
| "plus_cfloat _ NInf = NInf"

definition minus_cfloat :: "cfloat \<Rightarrow> cfloat \<Rightarrow> cfloat" where
  "minus_cfloat a b = a + (- b)"

text \<open>The sign of an infinite product or quotient: positive when the signs agree.\<close>

definition signed_inf :: "bool \<Rightarrow> cfloat" where
  "signed_inf positive = (if positive then PInf else NInf)"

fun times_cfloat :: "cfloat \<Rightarrow> cfloat \<Rightarrow> cfloat" where
  "times_cfloat NaN _ = NaN"
| "times_cfloat _ NaN = NaN"
| "times_cfloat (Fin a) (Fin b) = Fin (a * b)"
| "times_cfloat (Fin a) PInf = (if a = 0 then NaN else signed_inf (0 < a))"
| "times_cfloat (Fin a) NInf = (if a = 0 then NaN else signed_inf (a < 0))"
| "times_cfloat PInf (Fin b) = (if b = 0 then NaN else signed_inf (0 < b))"
| "times_cfloat NInf (Fin b) = (if b = 0 then NaN else signed_inf (b < 0))"
| "times_cfloat PInf PInf = PInf"
| "times_cfloat NInf NInf = PInf"
| "times_cfloat PInf NInf = NInf"
| "times_cfloat NInf PInf = NInf"

text \<open>A zero divisor is taken as \<open>+0\<close>.\<close>

fun divide_cfloat :: "cfloat \<Rightarrow> cfloat \<Rightarrow> cfloat" where
  "divide_cfloat NaN _ = NaN"
| "divide_cfloat _ NaN = NaN"
| "divide_cfloat (Fin a) (Fin b) =
     (if b = 0 then (if a = 0 then NaN else signed_inf (0 < a)) else Fin (a / b))"
| "divide_cfloat (Fin a) _ = Fin 0"
| "divide_cfloat PInf (Fin b) = signed_inf (0 \<le> b)"
| "divide_cfloat NInf (Fin b) = signed_inf (b < 0)"
| "divide_cfloat _ _ = NaN"

definition inverse_cfloat :: "cfloat \<Rightarrow> cfloat" where
  "inverse_cfloat a = Fin 1 div a"

text \<open>The C comparisons \<^verbatim>\<open><\<close> and \<^verbatim>\<open><=\<close>: false whenever an operand is NaN.\<close>

fun less_cfloat :: "cfloat \<Rightarrow> cfloat \<Rightarrow> bool" where
  "less_cfloat NaN _ = False"
| "less_cfloat _ NaN = False"
| "less_cfloat (Fin a) (Fin b) = (a < b)"
| "less_cfloat _ NInf = False"
| "less_cfloat PInf _ = False"
| "less_cfloat _ _ = True"

fun less_eq_cfloat :: "cfloat \<Rightarrow> cfloat \<Rightarrow> bool" where
  "less_eq_cfloat NaN _ = False"
| "less_eq_cfloat _ NaN = False"
| "less_eq_cfloat (Fin a) (Fin b) = (a \<le> b)"
| "less_eq_cfloat NInf _ = True"
| "less_eq_cfloat _ PInf = True"
| "less_eq_cfloat _ _ = False"

instance ..

end

text \<open>The C comparison \<^verbatim>\<open>==\<close> on floats: NaN differs from everything, itself included.\<close>

fun feq :: "cfloat \<Rightarrow> cfloat \<Rightarrow> bool" where
  "feq NaN _ = False"
| "feq _ NaN = False"
| "feq a b = (a = b)"

definition isnan :: "cfloat \<Rightarrow> bool" where
  "isnan a = (a = NaN)"

fun sqrtf :: "cfloat \<Rightarrow> cfloat" where
  "sqrtf (Fin a) = (if a < 0 then NaN else Fin (sqrt a))"
| "sqrtf PInf = PInf"
| "sqrtf NInf = NaN"
| "sqrtf NaN = NaN"

fun cosf :: "cfloat \<Rightarrow> cfloat" where
  "cosf (Fin a) = Fin (cos a)"
| "cosf _ = NaN"

fun sinf :: "cfloat \<Rightarrow> cfloat" where
  "sinf (Fin a) = Fin (sin a)"
| "sinf _ = NaN"


definition M_PI :: cfloat where
  "M_PI = Fin pi"


section \<open>Data\<close>

text \<open>A C array \<^verbatim>\<open>float[3]\<close> is a triple, a \<^verbatim>\<open>float[3][3]\<close> a triple of rows.\<close>

type_synonym 'a arr3 = "'a \<times> 'a \<times> 'a"
type_synonym vec3 = "cfloat arr3"
type_synonym mat3 = "vec3 arr3"
type_synonym quat = "cfloat \<times> cfloat \<times> cfloat \<times> cfloat"

text \<open>\<open>nth3 a i\<close> is \<^verbatim>\<open>a[i]\<close>; every index in the module is one of the constants 0, 1, 2.\<close>

fun nth3 :: "'a arr3 \<Rightarrow> nat \<Rightarrow> 'a" where
  "nth3 (a, b, c) i = (if i = 0 then a else if i = 1 then b else c)"

text \<open>Raw samples, as the drivers queue them.\<close>

record pios_sensor_accel_data =
  accel_x :: cfloat
  accel_y :: cfloat
  accel_z :: cfloat
  accel_temp :: cfloat

record pios_sensor_gyro_data =
  gyro_x :: cfloat
  gyro_y :: cfloat
  gyro_z :: cfloat
  gyro_temp :: cfloat

record pios_sensor_mag_data =
  mag_x :: cfloat
  mag_y :: cfloat
  mag_z :: cfloat

text \<open>The published objects.\<close>

record AccelsData =
  Accels_x :: cfloat
  Accels_y :: cfloat
  Accels_z :: cfloat
  Accels_temperature :: cfloat

record GyrosData =
  Gyros_x :: cfloat
  Gyros_y :: cfloat
  Gyros_z :: cfloat
  Gyros_temperature :: cfloat

record MagnetometerData =
  Magnetometer_x :: cfloat
  Magnetometer_y :: cfloat
  Magnetometer_z :: cfloat

record MagBiasData =
  MagBias_x :: cfloat
  MagBias_y :: cfloat
  MagBias_z :: cfloat

text \<open>The objects the module only reads.\<close>

record GyrosBiasData =
  GyrosBias_x :: cfloat
  GyrosBias_y :: cfloat
  GyrosBias_z :: cfloat

record HomeLocationData =
  Be :: vec3

record AttitudeActualData =
  q1 :: cfloat
  q2 :: cfloat
  q3 :: cfloat
  q4 :: cfloat
  Yaw :: cfloat

record AttitudeSettingsData =
  BoardRotation :: "16 word arr3"
  BiasCorrectGyro :: "8 word"

record InertialSensorSettingsData =
  AccelBias :: vec3
  AccelScale :: vec3
  GyroScale :: vec3

record INSSettingsData =
  MagBiasNullingRate :: cfloat

record RevoCalibrationData =
  MagBias :: vec3
  MagScale :: vec3

text \<open>
  Modelled from the spec: the element-index and option macros of the generated object
  headers, which are not among the sources. The elements of a per-axis field are named
  X, Y, Z (Roll, Pitch, Yaw for the board rotation) in this order, and the options of the
  gyro-bias toggle are FALSE, TRUE.
\<close>

definition REVOCALIBRATION_MAGBIAS_X :: nat where "REVOCALIBRATION_MAGBIAS_X = 0"
definition REVOCALIBRATION_MAGBIAS_Y :: nat where "REVOCALIBRATION_MAGBIAS_Y = 1"
definition REVOCALIBRATION_MAGBIAS_Z :: nat where "REVOCALIBRATION_MAGBIAS_Z = 2"
definition REVOCALIBRATION_MAGSCALE_X :: nat where "REVOCALIBRATION_MAGSCALE_X = 0"
definition REVOCALIBRATION_MAGSCALE_Y :: nat where "REVOCALIBRATION_MAGSCALE_Y = 1"
definition REVOCALIBRATION_MAGSCALE_Z :: nat where "REVOCALIBRATION_MAGSCALE_Z = 2"
definition INERTIALSENSORSETTINGS_ACCELBIAS_X :: nat where "INERTIALSENSORSETTINGS_ACCELBIAS_X = 0"
definition INERTIALSENSORSETTINGS_ACCELBIAS_Y :: nat where "INERTIALSENSORSETTINGS_ACCELBIAS_Y = 1"
definition INERTIALSENSORSETTINGS_ACCELBIAS_Z :: nat where "INERTIALSENSORSETTINGS_ACCELBIAS_Z = 2"
definition INERTIALSENSORSETTINGS_ACCELSCALE_X :: nat where "INERTIALSENSORSETTINGS_ACCELSCALE_X = 0"
definition INERTIALSENSORSETTINGS_GYROSCALE_X :: nat where "INERTIALSENSORSETTINGS_GYROSCALE_X = 0"
definition ATTITUDESETTINGS_BOARDROTATION_ROLL :: nat where "ATTITUDESETTINGS_BOARDROTATION_ROLL = 0"
definition ATTITUDESETTINGS_BOARDROTATION_PITCH :: nat where "ATTITUDESETTINGS_BOARDROTATION_PITCH = 1"
definition ATTITUDESETTINGS_BOARDROTATION_YAW :: nat where "ATTITUDESETTINGS_BOARDROTATION_YAW = 2"
definition ATTITUDESETTINGS_BIASCORRECTGYRO_TRUE :: "8 word" where
  "ATTITUDESETTINGS_BIASCORRECTGYRO_TRUE = 1"

text \<open>
  The functions of the coordinate-conversion library (\<^verbatim>\<open>CoordinateConversions.h\<close>) that
  the module calls. The library is not among the sources, so the three functions are
  parameters of the model: \<open>rot_mult R v transpose\<close> returns the output vector,
  \<open>Quaternion2R q\<close> the output matrix, \<open>RPY2Quaternion rpy\<close> the output quaternion.
\<close>

record CoordinateConversions =
  rot_mult :: "mat3 \<Rightarrow> vec3 \<Rightarrow> bool \<Rightarrow> vec3"
  Quaternion2R :: "quat \<Rightarrow> mat3"
  RPY2Quaternion :: "vec3 \<Rightarrow> quat"

text \<open>
  The calls the module makes to the object store, the alarm registry, the watchdog and
  the scheduler, in the order it makes them.
\<close>

datatype alarm_severity = SYSTEMALARMS_ALARM_CRITICAL

datatype event =
    EvAccelsSet AccelsData
  | EvGyrosSet GyrosData
  | EvMagnetometerSet MagnetometerData
  | EvMagBiasSet MagBiasData
  | EvAlarmsSet alarm_severity
  | EvAlarmsClear
  | EvWDGUpdateFlag
  | EvTaskDelayUntil

text \<open>
  The state: the module's static variables (lines 89--102), the objects of the store it
  reads and writes, the three driver queues as \<^verbatim>\<open>PIOS_SENSORS_GetQueue\<close> returns them
  (\<open>None\<close> for a \<^verbatim>\<open>NULL\<close> handle, otherwise the samples that a receive finds within its
  timeout, oldest first), the local flag \<^verbatim>\<open>error\<close> of the task, and the trace of calls.
\<close>

record world =
  bias_correct_gyro :: bool
  mag_bias :: vec3
  mag_scale :: vec3
  accel_bias :: vec3
  accel_scale :: vec3
  gyro_scale :: vec3
  Rbs :: mat3
  rotate_flag :: "8 word"
  revoCal :: RevoCalibrationData
  insSettings :: INSSettingsData
  AccelsObj :: AccelsData
  GyrosObj :: GyrosData
  MagnetometerObj :: MagnetometerData
  MagBiasObj :: MagBiasData
  GyrosBiasObj :: GyrosBiasData
  HomeLocationObj :: HomeLocationData
  AttitudeActualObj :: AttitudeActualData
  AttitudeSettingsObj :: AttitudeSettingsData
  InertialSensorSettingsObj :: InertialSensorSettingsData
  INSSettingsObj :: INSSettingsData
  RevoCalibrationObj :: RevoCalibrationData
  queue_gyro :: "pios_sensor_gyro_data list option"
  queue_accel :: "pios_sensor_accel_data list option"
  queue_mag :: "pios_sensor_mag_data list option"
  error :: bool
  trace :: "event list"

section \<open>The collaborators\<close>

definition AccelsSet :: "AccelsData \<Rightarrow> world \<Rightarrow> world" where
  "AccelsSet d w = w\<lparr>AccelsObj := d, trace := trace w @ [EvAccelsSet d]\<rparr>"

definition GyrosSet :: "GyrosData \<Rightarrow> world \<Rightarrow> world" where
  "GyrosSet d w = w\<lparr>GyrosObj := d, trace := trace w @ [EvGyrosSet d]\<rparr>"

definition MagnetometerSet :: "MagnetometerData \<Rightarrow> world \<Rightarrow> world" where
  "MagnetometerSet d w = w\<lparr>MagnetometerObj := d, trace := trace w @ [EvMagnetometerSet d]\<rparr>"

definition MagBiasSet :: "MagBiasData \<Rightarrow> world \<Rightarrow> world" where
  "MagBiasSet d w = w\<lparr>MagBiasObj := d, trace := trace w @ [EvMagBiasSet d]\<rparr>"

definition AlarmsSet :: "alarm_severity \<Rightarrow> world \<Rightarrow> world" where
  "AlarmsSet sev w = w\<lparr>trace := trace w @ [EvAlarmsSet sev]\<rparr>"

definition AlarmsClear :: "world \<Rightarrow> world" where
  "AlarmsClear w = w\<lparr>trace := trace w @ [EvAlarmsClear]\<rparr>"

definition PIOS_WDG_UpdateFlag :: "world \<Rightarrow> world" where
  "PIOS_WDG_UpdateFlag w = w\<lparr>trace := trace w @ [EvWDGUpdateFlag]\<rparr>"

definition vTaskDelayUntil :: "world \<Rightarrow> world" where
  "vTaskDelayUntil w = w\<lparr>trace := trace w @ [EvTaskDelayUntil]\<rparr>"

text \<open>
  \<^verbatim>\<open>xQueueReceive\<close>: the oldest sample and the rest of the queue, or \<open>None\<close> for
  \<^verbatim>\<open>errQUEUE_EMPTY\<close>.
\<close>

fun xQueueReceive :: "'a list \<Rightarrow> 'a option \<times> 'a list" where
  "xQueueReceive [] = (None, [])"
| "xQueueReceive (s # q) = (Some s, q)"

text \<open>The conversion of an \<^verbatim>\<open>int16_t\<close> to \<^verbatim>\<open>float\<close>.\<close>

definition float_of_int16 :: "16 word \<Rightarrow> cfloat" where
  "float_of_int16 i = Fin (real_of_int (sint i))"

section \<open>The module\<close>

text \<open>\<^verbatim>\<open>update_accels\<close>, lines 219--241.\<close>

definition update_accels :: "CoordinateConversions \<Rightarrow> pios_sensor_accel_data \<Rightarrow> world \<Rightarrow> world" where
  "update_accels L accels w =
     (let accels_out = (accel_x accels * nth3 (accel_scale w) 0 - nth3 (accel_bias w) 0,
                        accel_y accels * nth3 (accel_scale w) 1 - nth3 (accel_bias w) 1,
                        accel_z accels * nth3 (accel_scale w) 2 - nth3 (accel_bias w) 2);
          xyz = (if rotate_flag w \<noteq> 0 then rot_mult L (Rbs w) accels_out False else accels_out);
          accelsData = \<lparr>Accels_x = nth3 xyz 0, Accels_y = nth3 xyz 1, Accels_z = nth3 xyz 2,
                        Accels_temperature = accel_temp accels\<rparr>
      in AccelsSet accelsData w)"

text \<open>\<^verbatim>\<open>update_gyros\<close>, lines 247--278.\<close>

definition update_gyros :: "CoordinateConversions \<Rightarrow> pios_sensor_gyro_data \<Rightarrow> world \<Rightarrow> world" where
  "update_gyros L gyros w =
     (let gyros_out = (gyro_x gyros * nth3 (gyro_scale w) 0,
                       gyro_y gyros * nth3 (gyro_scale w) 1,
                       gyro_z gyros * nth3 (gyro_scale w) 2);
          xyz = (if rotate_flag w \<noteq> 0 then rot_mult L (Rbs w) gyros_out False else gyros_out);
          xyz =
            (if bias_correct_gyro w then
               (let gyrosBias = GyrosBiasObj w
                in (nth3 xyz 0 - GyrosBias_x gyrosBias,
                    nth3 xyz 1 - GyrosBias_y gyrosBias,
                    nth3 xyz 2 - GyrosBias_z gyrosBias))
             else xyz);
          gyrosData = \<lparr>Gyros_x = nth3 xyz 0, Gyros_y = nth3 xyz 1, Gyros_z = nth3 xyz 2,
                       Gyros_temperature = gyro_temp gyros\<rparr>
      in GyrosSet gyrosData w)"


text \<open>
  The local variables of \<^verbatim>\<open>magOffsetEstimation\<close> that its correction is computed from
  (lines 365--394), for a measurement with the bias estimate already removed: the
  reference magnitudes \<^verbatim>\<open>Rxy\<close> and \<^verbatim>\<open>Rz\<close>, the rate, the vertical component \<^verbatim>\<open>B_e[2]\<close> of
  the measurement in the navigation frame, and its horizontal part \<^verbatim>\<open>xy\<close> with the norm
  \<^verbatim>\<open>xy_norm\<close>.
\<close>

record estimator_locals =
  Rxy :: cfloat
  Rz :: cfloat
  rate :: cfloat
  B_e2 :: cfloat
  xy0 :: cfloat
  xy1 :: cfloat
  xy_norm :: cfloat

definition magOffsetEstimation_locals :: "CoordinateConversions \<Rightarrow> MagnetometerData \<Rightarrow> world \<Rightarrow> estimator_locals" where
  "magOffsetEstimation_locals L mag w =
     (let homeLocation = HomeLocationObj w;
          attitude = AttitudeActualObj w;
          Rxy = sqrtf (nth3 (Be homeLocation) 0 * nth3 (Be homeLocation) 0
                       + nth3 (Be homeLocation) 1 * nth3 (Be homeLocation) 1);
          Rz = nth3 (Be homeLocation) 2;
          rate = MagBiasNullingRate (insSettings w);
          R = Quaternion2R L (q1 attitude, q2 attitude, q3 attitude, q4 attitude);
          B_e0 = nth3 (nth3 R 0) 0 * Magnetometer_x mag + nth3 (nth3 R 1) 0 * Magnetometer_y mag
                 + nth3 (nth3 R 2) 0 * Magnetometer_z mag;
          B_e1 = nth3 (nth3 R 0) 1 * Magnetometer_x mag + nth3 (nth3 R 1) 1 * Magnetometer_y mag
                 + nth3 (nth3 R 2) 1 * Magnetometer_z mag;
          B_e2 = nth3 (nth3 R 0) 2 * Magnetometer_x mag + nth3 (nth3 R 1) 2 * Magnetometer_y mag
                 + nth3 (nth3 R 2) 2 * Magnetometer_z mag;
          cy = cosf (Yaw attitude * M_PI / Fin 180);
          sy = sinf (Yaw attitude * M_PI / Fin 180);
          xy0 = cy * B_e0 + sy * B_e1;
          xy1 = (- sy) * B_e0 + cy * B_e1;
          xy_norm = sqrtf (xy0 * xy0 + xy1 * xy1)
      in \<lparr>Rxy = Rxy, Rz = Rz, rate = rate, B_e2 = B_e2, xy0 = xy0, xy1 = xy1,
          xy_norm = xy_norm\<rparr>)"

text \<open>The three components of \<^verbatim>\<open>delta\<close>, lines 396--398.\<close>

definition magOffsetEstimation_delta :: "CoordinateConversions \<Rightarrow> MagnetometerData \<Rightarrow> world \<Rightarrow> vec3" where
  "magOffsetEstimation_delta L mag w =
     (let v = magOffsetEstimation_locals L mag w;
          delta0 = (- rate v) * (xy0 v / xy_norm v * Rxy v - xy0 v);
          delta1 = (- rate v) * (xy1 v / xy_norm v * Rxy v - xy1 v);
          delta2 = (- rate v) * (Rz v - B_e2 v)
      in (delta0, delta1, delta2))"

text \<open>
  \<^verbatim>\<open>magOffsetEstimation\<close>, the branch that is compiled (lines 357--405). The
  measurement is changed in place, so the function returns it with the state.
\<close>

definition magOffsetEstimation :: "CoordinateConversions \<Rightarrow> MagnetometerData \<Rightarrow> world \<Rightarrow> MagnetometerData \<times> world" where
  "magOffsetEstimation L mag w =
     (let magBias = MagBiasObj w;
          mag = mag\<lparr>Magnetometer_x := Magnetometer_x mag - MagBias_x magBias\<rparr>;
          mag = mag\<lparr>Magnetometer_y := Magnetometer_y mag - MagBias_y magBias\<rparr>;
          mag = mag\<lparr>Magnetometer_z := Magnetometer_z mag - MagBias_z magBias\<rparr>;
          delta = magOffsetEstimation_delta L mag w
      in if feq (nth3 delta 0) (nth3 delta 0) \<and> feq (nth3 delta 1) (nth3 delta 1)
            \<and> feq (nth3 delta 2) (nth3 delta 2)
         then
           (let magBias = magBias\<lparr>MagBias_x := MagBias_x magBias + nth3 delta 0\<rparr>;
                magBias = magBias\<lparr>MagBias_y := MagBias_y magBias + nth3 delta 1\<rparr>;
                magBias = magBias\<lparr>MagBias_z := MagBias_z magBias + nth3 delta 2\<rparr>
            in (mag, MagBiasSet magBias w))
         else (mag, w))"

text \<open>\<^verbatim>\<open>update_mags\<close>, lines 284--308.\<close>

definition update_mags :: "CoordinateConversions \<Rightarrow> pios_sensor_mag_data \<Rightarrow> world \<Rightarrow> world" where
  "update_mags L mag w =
     (let mags = (mag_x mag * nth3 (mag_scale w) 0 - nth3 (mag_bias w) 0,
                  mag_y mag * nth3 (mag_scale w) 1 - nth3 (mag_bias w) 1,
                  mag_z mag * nth3 (mag_scale w) 2 - nth3 (mag_bias w) 2);
          xyz = (if rotate_flag w \<noteq> 0 then rot_mult L (Rbs w) mags False else mags);
          magData = \<lparr>Magnetometer_x = nth3 xyz 0, Magnetometer_y = nth3 xyz 1,
                     Magnetometer_z = nth3 xyz 2\<rparr>;
          (magData, w) =
            (if 0 < MagBiasNullingRate (insSettings w) then magOffsetEstimation L magData w
             else (magData, w))
      in MagnetometerSet magData w)"

text \<open>\<^verbatim>\<open>settingsUpdatedCb\<close>, lines 412--462.\<close>

definition settingsUpdatedCb :: "CoordinateConversions \<Rightarrow> world \<Rightarrow> world" where
  "settingsUpdatedCb L w =
     (let w = w\<lparr>revoCal := RevoCalibrationObj w\<rparr>;
          inertialSensorSettings = InertialSensorSettingsObj w;
          w = w\<lparr>insSettings := INSSettingsObj w\<rparr>;
          w = w\<lparr>mag_bias := (nth3 (MagBias (revoCal w)) REVOCALIBRATION_MAGBIAS_X,
                              nth3 (MagBias (revoCal w)) REVOCALIBRATION_MAGBIAS_Y,
                              nth3 (MagBias (revoCal w)) REVOCALIBRATION_MAGBIAS_Z)\<rparr>;
          w = w\<lparr>mag_scale := (nth3 (MagScale (revoCal w)) REVOCALIBRATION_MAGSCALE_X,
                               nth3 (MagScale (revoCal w)) REVOCALIBRATION_MAGSCALE_Y,
                               nth3 (MagScale (revoCal w)) REVOCALIBRATION_MAGSCALE_Z)\<rparr>;
          w = w\<lparr>accel_bias :=
                 (nth3 (AccelBias inertialSensorSettings) INERTIALSENSORSETTINGS_ACCELBIAS_X,
                  nth3 (AccelBias inertialSensorSettings) INERTIALSENSORSETTINGS_ACCELBIAS_Y,
                  nth3 (AccelBias inertialSensorSettings) INERTIALSENSORSETTINGS_ACCELBIAS_Z)\<rparr>;
          w = w\<lparr>accel_scale :=
                 (nth3 (AccelScale inertialSensorSettings) INERTIALSENSORSETTINGS_ACCELSCALE_X,
                  nth3 (AccelScale inertialSensorSettings) INERTIALSENSORSETTINGS_ACCELSCALE_X,
                  nth3 (AccelScale inertialSensorSettings) INERTIALSENSORSETTINGS_ACCELSCALE_X)\<rparr>;
          w = w\<lparr>gyro_scale :=
                 (nth3 (GyroScale inertialSensorSettings) INERTIALSENSORSETTINGS_GYROSCALE_X,
                  nth3 (GyroScale inertialSensorSettings) INERTIALSENSORSETTINGS_GYROSCALE_X,
                  nth3 (GyroScale inertialSensorSettings) INERTIALSENSORSETTINGS_GYROSCALE_X)\<rparr>;
          magBias = MagBiasObj w;
          magBias = magBias\<lparr>MagBias_x := 0\<rparr>;
          magBias = magBias\<lparr>MagBias_y := 0\<rparr>;
          magBias = magBias\<lparr>MagBias_z := 0\<rparr>;
          w = MagBiasSet magBias w;
          bias_correct = BiasCorrectGyro (AttitudeSettingsObj w);
          w = w\<lparr>bias_correct_gyro := (bias_correct = ATTITUDESETTINGS_BIASCORRECTGYRO_TRUE)\<rparr>;
          attitudeSettings = AttitudeSettingsObj w
      in if nth3 (BoardRotation attitudeSettings) 0 = 0 \<and> nth3 (BoardRotation attitudeSettings) 1 = 0
            \<and> nth3 (BoardRotation attitudeSettings) 2 = 0
         then w\<lparr>rotate_flag := 0\<rparr>
         else
           (let rpy =
                  (float_of_int16 (nth3 (BoardRotation attitudeSettings) ATTITUDESETTINGS_BOARDROTATION_ROLL) / Fin 100,
                   float_of_int16 (nth3 (BoardRotation attitudeSettings) ATTITUDESETTINGS_BOARDROTATION_PITCH) / Fin 100,
                   float_of_int16 (nth3 (BoardRotation attitudeSettings) ATTITUDESETTINGS_BOARDROTATION_YAW) / Fin 100);
                rotationQuat = RPY2Quaternion L rpy;
                w = w\<lparr>Rbs := Quaternion2R L rotationQuat\<rparr>
            in w\<lparr>rotate_flag := 1\<rparr>))"

text \<open>
  One pass of the loop of \<^verbatim>\<open>SensorsTask\<close> (lines 172--212), in two parts. The first is
  the branch on the fault flag at the head of the loop (lines 173--181).
\<close>

definition SensorsTask_head :: "world \<Rightarrow> world" where
  "SensorsTask_head w =
     (if error w then
        (let w = PIOS_WDG_UpdateFlag w;
             w = vTaskDelayUntil w;
             w = AlarmsSet SYSTEMALARMS_ALARM_CRITICAL w
         in w\<lparr>error := False\<rparr>)
      else AlarmsClear w)"

text \<open>The calls that the head of the loop makes, by the fault flag it finds.\<close>

definition head_events :: "bool \<Rightarrow> event list" where
  "head_events faulted =
     (if faulted then [EvWDGUpdateFlag, EvTaskDelayUntil, EvAlarmsSet SYSTEMALARMS_ALARM_CRITICAL]
      else [EvAlarmsClear])"

text \<open>
  The second is the rest of the pass (lines 183--211). Each \<^verbatim>\<open>continue\<close> is a branch
  that returns the state as it is then.
\<close>

definition SensorsTask_body :: "CoordinateConversions \<Rightarrow> world \<Rightarrow> world" where
  "SensorsTask_body L w =
     (case (case queue_gyro w of None \<Rightarrow> (None, w)
            | Some q \<Rightarrow> (let (r, q') = xQueueReceive q in (r, w\<lparr>queue_gyro := Some q'\<rparr>))) of
        (None, w) \<Rightarrow> w\<lparr>error := True\<rparr>
      | (Some gyros, w) \<Rightarrow>
          (case (case queue_accel w of None \<Rightarrow> (None, w)
                 | Some q \<Rightarrow> (let (r, q') = xQueueReceive q in (r, w\<lparr>queue_accel := Some q'\<rparr>))) of
             (None, w) \<Rightarrow> w\<lparr>error := True\<rparr>
           | (Some accels, w) \<Rightarrow>
               (let w = update_accels L accels w;
                    w = update_gyros L gyros w;
                    w = (case (case queue_mag w of None \<Rightarrow> (None, w)
                               | Some q \<Rightarrow> (let (r, q') = xQueueReceive q
                                            in (r, w\<lparr>queue_mag := Some q'\<rparr>))) of
                           (None, w) \<Rightarrow> w
                         | (Some mags, w) \<Rightarrow> update_mags L mags w)
                in PIOS_WDG_UpdateFlag w)))"

definition SensorsTask_cycle :: "CoordinateConversions \<Rightarrow> world \<Rightarrow> world" where
  "SensorsTask_cycle L w = SensorsTask_body L (SensorsTask_head w)"

text \<open>
  The loop never ends, so a run is given by what the drivers deliver before each pass:
  the samples they send to the three queues (a queue that does not exist receives
  nothing). The run makes one pass for each delivery.
\<close>

record delivery =
  to_gyro :: "pios_sensor_gyro_data list"
  to_accel :: "pios_sensor_accel_data list"
  to_mag :: "pios_sensor_mag_data list"

definition deliver :: "delivery \<Rightarrow> world \<Rightarrow> world" where
  "deliver d w =
     w\<lparr>queue_gyro := map_option (\<lambda>q. q @ to_gyro d) (queue_gyro w),
       queue_accel := map_option (\<lambda>q. q @ to_accel d) (queue_accel w),
       queue_mag := map_option (\<lambda>q. q @ to_mag d) (queue_mag w)\<rparr>"

fun SensorsTask_loop :: "CoordinateConversions \<Rightarrow> delivery list \<Rightarrow> world \<Rightarrow> world" where
  "SensorsTask_loop L [] w = w"
| "SensorsTask_loop L (d # ds) w = SensorsTask_loop L ds (SensorsTask_cycle L (deliver d w))"

text \<open>\<^verbatim>\<open>SensorsTask\<close>, lines 159--213: the start of the task, then the loop.\<close>

definition SensorsTask :: "CoordinateConversions \<Rightarrow> delivery list \<Rightarrow> world \<Rightarrow> world" where
  "SensorsTask L ds w =
     (let w = AlarmsClear w;
          w = settingsUpdatedCb L w;
          w = w\<lparr>error := False\<rparr>
      in SensorsTask_loop L ds w)"

section \<open>Rounded arithmetic\<close>

text \<open>
  The arithmetic of the target rounds. An operation of the estimator below yields the
  value of the exact operation, rounded by a function \<open>r\<close> from the real result to the
  float that is stored; an infinity or NaN is passed on as it is. With \<open>r = Fin\<close> nothing
  is rounded.
\<close>

fun rounded :: "(real \<Rightarrow> cfloat) \<Rightarrow> cfloat \<Rightarrow> cfloat" where
  "rounded r (Fin x) = r x"
| "rounded r PInf = PInf"
| "rounded r NInf = NInf"
| "rounded r NaN = NaN"

definition fadd :: "(real \<Rightarrow> cfloat) \<Rightarrow> cfloat \<Rightarrow> cfloat \<Rightarrow> cfloat" where
  "fadd r a b = rounded r (a + b)"

definition fsub :: "(real \<Rightarrow> cfloat) \<Rightarrow> cfloat \<Rightarrow> cfloat \<Rightarrow> cfloat" where
  "fsub r a b = rounded r (a - b)"

definition fmul :: "(real \<Rightarrow> cfloat) \<Rightarrow> cfloat \<Rightarrow> cfloat \<Rightarrow> cfloat" where
  "fmul r a b = rounded r (a * b)"

definition fdiv :: "(real \<Rightarrow> cfloat) \<Rightarrow> cfloat \<Rightarrow> cfloat \<Rightarrow> cfloat" where
  "fdiv r a b = rounded r (a / b)"

definition fsqrt :: "(real \<Rightarrow> cfloat) \<Rightarrow> cfloat \<Rightarrow> cfloat" where
  "fsqrt r a = rounded r (sqrtf a)"

definition fcos :: "(real \<Rightarrow> cfloat) \<Rightarrow> cfloat \<Rightarrow> cfloat" where
  "fcos r a = rounded r (cosf a)"

definition fsin :: "(real \<Rightarrow> cfloat) \<Rightarrow> cfloat \<Rightarrow> cfloat" where
  "fsin r a = rounded r (sinf a)"




text \<open>
  \<^verbatim>\<open>magOffsetEstimation\<close> (lines 357--405) once more, with every operation rounded by
  \<open>r\<close>: first the local variables, then \<^verbatim>\<open>delta\<close>, then the function. Each operation is
  rounded on its own, in the order in which C evaluates the expression. The angle
  \<^verbatim>\<open>attitude.Yaw * M_PI / 180.0f\<close> is computed in double precision, which is taken as
  exact, and rounded once when it is passed to \<^verbatim>\<open>cosf\<close> and \<^verbatim>\<open>sinf\<close>; negation is exact.
\<close>

definition magOffsetEstimation_rnd_locals :: "(real \<Rightarrow> cfloat) \<Rightarrow> CoordinateConversions \<Rightarrow> MagnetometerData \<Rightarrow> world \<Rightarrow> estimator_locals" where
  "magOffsetEstimation_rnd_locals r L mag w =
     (let homeLocation = HomeLocationObj w;
          attitude = AttitudeActualObj w;
          Rxy = fsqrt r (fadd r (fmul r (nth3 (Be homeLocation) 0) (nth3 (Be homeLocation) 0))
                                (fmul r (nth3 (Be homeLocation) 1) (nth3 (Be homeLocation) 1)));
          Rz = nth3 (Be homeLocation) 2;
          rate = MagBiasNullingRate (insSettings w);
          R = Quaternion2R L (q1 attitude, q2 attitude, q3 attitude, q4 attitude);
          B_e0 = fadd r (fadd r (fmul r (nth3 (nth3 R 0) 0) (Magnetometer_x mag))
                                (fmul r (nth3 (nth3 R 1) 0) (Magnetometer_y mag)))
                        (fmul r (nth3 (nth3 R 2) 0) (Magnetometer_z mag));
          B_e1 = fadd r (fadd r (fmul r (nth3 (nth3 R 0) 1) (Magnetometer_x mag))
                                (fmul r (nth3 (nth3 R 1) 1) (Magnetometer_y mag)))
                        (fmul r (nth3 (nth3 R 2) 1) (Magnetometer_z mag));
          B_e2 = fadd r (fadd r (fmul r (nth3 (nth3 R 0) 2) (Magnetometer_x mag))
                                (fmul r (nth3 (nth3 R 1) 2) (Magnetometer_y mag)))
                        (fmul r (nth3 (nth3 R 2) 2) (Magnetometer_z mag));
          cy = fcos r (rounded r (Yaw attitude * M_PI / Fin 180));
          sy = fsin r (rounded r (Yaw attitude * M_PI / Fin 180));
          xy0 = fadd r (fmul r cy B_e0) (fmul r sy B_e1);
          xy1 = fadd r (fmul r (- sy) B_e0) (fmul r cy B_e1);
          xy_norm = fsqrt r (fadd r (fmul r xy0 xy0) (fmul r xy1 xy1))
      in \<lparr>Rxy = Rxy, Rz = Rz, rate = rate, B_e2 = B_e2, xy0 = xy0, xy1 = xy1,
          xy_norm = xy_norm\<rparr>)"

definition magOffsetEstimation_rnd_delta :: "(real \<Rightarrow> cfloat) \<Rightarrow> CoordinateConversions \<Rightarrow> MagnetometerData \<Rightarrow> world \<Rightarrow> vec3" where
  "magOffsetEstimation_rnd_delta r L mag w =
     (let v = magOffsetEstimation_rnd_locals r L mag w;
          delta0 = fmul r (- rate v) (fsub r (fmul r (fdiv r (xy0 v) (xy_norm v)) (Rxy v)) (xy0 v));
          delta1 = fmul r (- rate v) (fsub r (fmul r (fdiv r (xy1 v) (xy_norm v)) (Rxy v)) (xy1 v));
          delta2 = fmul r (- rate v) (fsub r (Rz v) (B_e2 v))
      in (delta0, delta1, delta2))"

definition magOffsetEstimation_rnd :: "(real \<Rightarrow> cfloat) \<Rightarrow> CoordinateConversions \<Rightarrow> MagnetometerData \<Rightarrow> world \<Rightarrow> MagnetometerData \<times> world" where
  "magOffsetEstimation_rnd r L mag w =
     (let magBias = MagBiasObj w;
          mag = mag\<lparr>Magnetometer_x := fsub r (Magnetometer_x mag) (MagBias_x magBias)\<rparr>;
          mag = mag\<lparr>Magnetometer_y := fsub r (Magnetometer_y mag) (MagBias_y magBias)\<rparr>;
          mag = mag\<lparr>Magnetometer_z := fsub r (Magnetometer_z mag) (MagBias_z magBias)\<rparr>;
          delta = magOffsetEstimation_rnd_delta r L mag w
      in if feq (nth3 delta 0) (nth3 delta 0) \<and> feq (nth3 delta 1) (nth3 delta 1)
            \<and> feq (nth3 delta 2) (nth3 delta 2)
         then
           (let magBias = magBias\<lparr>MagBias_x := fadd r (MagBias_x magBias) (nth3 delta 0)\<rparr>;
                magBias = magBias\<lparr>MagBias_y := fadd r (MagBias_y magBias) (nth3 delta 1)\<rparr>;
                magBias = magBias\<lparr>MagBias_z := fadd r (MagBias_z magBias) (nth3 delta 2)\<rparr>
            in (mag, MagBiasSet magBias w))
         else (mag, w))"



section \<open>A reference library and a start state\<close>

text \<open>
  Modelled from the spec: the coordinate-conversion library, which is not among the
  sources. \<open>rot_mult\<close> is the matrix-vector product, by rows (by columns when the
  transpose flag is set), so that the identity matrix leaves a vector as it is;
  \<open>Quaternion2R\<close> is the rotation matrix of a quaternion and \<open>RPY2Quaternion\<close> the
  composition of the roll, pitch and yaw rotations, angles in degrees. The theorems below
  hold for every library; this one gives them a concrete instance.
\<close>

definition rot_mult_ref :: "mat3 \<Rightarrow> vec3 \<Rightarrow> bool \<Rightarrow> vec3" where
  "rot_mult_ref R v transposed =
     (if \<not> transposed then
        (nth3 (nth3 R 0) 0 * nth3 v 0 + nth3 (nth3 R 0) 1 * nth3 v 1 + nth3 (nth3 R 0) 2 * nth3 v 2,
         nth3 (nth3 R 1) 0 * nth3 v 0 + nth3 (nth3 R 1) 1 * nth3 v 1 + nth3 (nth3 R 1) 2 * nth3 v 2,
         nth3 (nth3 R 2) 0 * nth3 v 0 + nth3 (nth3 R 2) 1 * nth3 v 1 + nth3 (nth3 R 2) 2 * nth3 v 2)
      else
        (nth3 (nth3 R 0) 0 * nth3 v 0 + nth3 (nth3 R 1) 0 * nth3 v 1 + nth3 (nth3 R 2) 0 * nth3 v 2,
         nth3 (nth3 R 0) 1 * nth3 v 0 + nth3 (nth3 R 1) 1 * nth3 v 1 + nth3 (nth3 R 2) 1 * nth3 v 2,
         nth3 (nth3 R 0) 2 * nth3 v 0 + nth3 (nth3 R 1) 2 * nth3 v 1 + nth3 (nth3 R 2) 2 * nth3 v 2))"

fun Quaternion2R_ref :: "quat \<Rightarrow> mat3" where
  "Quaternion2R_ref (a, b, c, d) =
     ((a * a + b * b - c * c - d * d, Fin 2 * (b * c + a * d), Fin 2 * (b * d - a * c)),
      (Fin 2 * (b * c - a * d), a * a - b * b + c * c - d * d, Fin 2 * (c * d + a * b)),
      (Fin 2 * (b * d + a * c), Fin 2 * (c * d - a * b), a * a - b * b - c * c + d * d))"

definition RPY2Quaternion_ref :: "vec3 \<Rightarrow> quat" where
  "RPY2Quaternion_ref rpy =
     (let phi = M_PI / Fin 180 * nth3 rpy 0 / Fin 2;
          theta = M_PI / Fin 180 * nth3 rpy 1 / Fin 2;
          psi = M_PI / Fin 180 * nth3 rpy 2 / Fin 2;
          a = cosf phi * cosf theta * cosf psi + sinf phi * sinf theta * sinf psi;
          b = sinf phi * cosf theta * cosf psi - cosf phi * sinf theta * sinf psi;
          c = cosf phi * sinf theta * cosf psi + sinf phi * cosf theta * sinf psi;
          d = cosf phi * cosf theta * sinf psi - sinf phi * sinf theta * cosf psi
      in if a < 0 then (- a, - b, - c, - d) else (a, b, c, d))"

definition CoordinateConversions_ref :: CoordinateConversions where
  "CoordinateConversions_ref =
     \<lparr>rot_mult = rot_mult_ref, Quaternion2R = Quaternion2R_ref,
      RPY2Quaternion = RPY2Quaternion_ref\<rparr>"

text \<open>
  The state before the task starts: the static variables with their initialisers
  (lines 93--102), every object zero, the attitude the unit quaternion, no queue
  registered, an empty trace.
\<close>

definition zero3 :: vec3 where
  "zero3 = (0, 0, 0)"

definition start_world :: world where
  "start_world =
     \<lparr>bias_correct_gyro = True,
      mag_bias = zero3, mag_scale = zero3, accel_bias = zero3, accel_scale = zero3,
      gyro_scale = zero3,
      Rbs = (zero3, zero3, zero3),
      rotate_flag = 0,
      revoCal = \<lparr>MagBias = zero3, MagScale = zero3\<rparr>,
      insSettings = \<lparr>MagBiasNullingRate = 0\<rparr>,
      AccelsObj = \<lparr>Accels_x = 0, Accels_y = 0, Accels_z = 0, Accels_temperature = 0\<rparr>,
      GyrosObj = \<lparr>Gyros_x = 0, Gyros_y = 0, Gyros_z = 0, Gyros_temperature = 0\<rparr>,
      MagnetometerObj = \<lparr>Magnetometer_x = 0, Magnetometer_y = 0, Magnetometer_z = 0\<rparr>,
      MagBiasObj = \<lparr>MagBias_x = 0, MagBias_y = 0, MagBias_z = 0\<rparr>,
      GyrosBiasObj = \<lparr>GyrosBias_x = 0, GyrosBias_y = 0, GyrosBias_z = 0\<rparr>,
      HomeLocationObj = \<lparr>Be = zero3\<rparr>,
      AttitudeActualObj = \<lparr>q1 = Fin 1, q2 = 0, q3 = 0, q4 = 0, Yaw = 0\<rparr>,
      AttitudeSettingsObj = \<lparr>BoardRotation = (0, 0, 0), BiasCorrectGyro = 0\<rparr>,
      InertialSensorSettingsObj = \<lparr>AccelBias = zero3, AccelScale = zero3, GyroScale = zero3\<rparr>,
      INSSettingsObj = \<lparr>MagBiasNullingRate = 0\<rparr>,
      RevoCalibrationObj = \<lparr>MagBias = zero3, MagScale = zero3\<rparr>,
      queue_gyro = None, queue_accel = None, queue_mag = None,
      error = False,
      trace = []\<rparr>"

section \<open>Example inputs\<close>

definition ex_accel :: pios_sensor_accel_data where
  "ex_accel = \<lparr>accel_x = Fin 1, accel_y = Fin 2, accel_z = Fin 3, accel_temp = Fin 25\<rparr>"

definition ex_gyro :: pios_sensor_gyro_data where
  "ex_gyro = \<lparr>gyro_x = Fin 4, gyro_y = Fin 2, gyro_z = Fin 1, gyro_temp = Fin 30\<rparr>"

definition ex_mag :: pios_sensor_mag_data where
  "ex_mag = \<lparr>mag_x = Fin 5, mag_y = Fin 6, mag_z = Fin 7\<rparr>"

text \<open>A calibrated board that is not rotated, with a gyro bias of 1 on each axis.\<close>

definition calibrated_world :: world where
  "calibrated_world =
     start_world\<lparr>accel_scale := (Fin 2, Fin 1, Fin 1), accel_bias := (Fin 0.5, Fin 0, Fin 0),
                 gyro_scale := (Fin 0.5, Fin 0.5, Fin 0.5),
                 mag_scale := (Fin 1, Fin 1, Fin 1), mag_bias := (Fin 1, Fin 1, Fin 1),
                 GyrosBiasObj := \<lparr>GyrosBias_x = Fin 1, GyrosBias_y = Fin 1, GyrosBias_z = Fin 1\<rparr>\<rparr>"

text \<open>The same board mounted a quarter turn about its vertical axis.\<close>

definition rotated_world :: world where
  "rotated_world =
     calibrated_world\<lparr>Rbs := ((Fin 0, Fin 1, Fin 0), (Fin (- 1), Fin 0, Fin 0), (Fin 0, Fin 0, Fin 1)),
                      rotate_flag := 1\<rparr>"

text \<open>The calibrated board with an adaptive bias estimate left from earlier updates.\<close>

definition biased_world :: world where
  "biased_world =
     calibrated_world\<lparr>MagBiasObj := \<lparr>MagBias_x = Fin 7, MagBias_y = Fin 7, MagBias_z = Fin 7\<rparr>\<rparr>"

text \<open>A sample whose calibrated, bias-corrected field is vertical.\<close>

definition ex_mag_vertical :: pios_sensor_mag_data where
  "ex_mag_vertical = \<lparr>mag_x = Fin 2, mag_y = Fin 2, mag_z = Fin 7\<rparr>"

text \<open>The calibrated board with bias nulling enabled, a home field and an earlier estimate.\<close>

definition nulling_world :: world where
  "nulling_world =
     calibrated_world\<lparr>insSettings := \<lparr>MagBiasNullingRate = Fin 0.5\<rparr>,
                       HomeLocationObj := \<lparr>Be = (Fin 6, Fin 8, Fin 2)\<rparr>,
                       MagBiasObj := \<lparr>MagBias_x = Fin 1, MagBias_y = Fin 1, MagBias_z = Fin 1\<rparr>\<rparr>"

text \<open>
  Queues: a board whose gyro driver has delivered nothing while an accel sample waits, a
  delivery of one gyro sample, a board with a gyro and an accel sample but no mag sample,
  and a board with a gyro and a mag sample but no accel sample.
\<close>

definition starved_world :: world where
  "starved_world =
     calibrated_world\<lparr>queue_gyro := Some [], queue_accel := Some [ex_accel], queue_mag := Some []\<rparr>"

definition ex_delivery :: delivery where
  "ex_delivery = \<lparr>to_gyro = [ex_gyro], to_accel = [], to_mag = []\<rparr>"

definition fed_world :: world where
  "fed_world =
     calibrated_world\<lparr>queue_gyro := Some [ex_gyro], queue_accel := Some [ex_accel],
                       queue_mag := Some []\<rparr>"

definition accel_starved_world :: world where
  "accel_starved_world =
     calibrated_world\<lparr>queue_gyro := Some [ex_gyro], queue_accel := Some [], queue_mag := Some [ex_mag]\<rparr>"

text \<open>A configuration whose accel and gyro scales differ from axis to axis.\<close>

definition per_axis_world :: world where
  "per_axis_world =
     start_world\<lparr>InertialSensorSettingsObj :=
       \<lparr>AccelBias = (Fin 7, Fin 8, Fin 9), AccelScale = (Fin 1, Fin 2, Fin 3),
        GyroScale = (Fin 4, Fin 5, Fin 6)\<rparr>\<rparr>"










section \<open>Facts about the model\<close>

lemmas index_macros =
  REVOCALIBRATION_MAGBIAS_X_def REVOCALIBRATION_MAGBIAS_Y_def REVOCALIBRATION_MAGBIAS_Z_def
  REVOCALIBRATION_MAGSCALE_X_def REVOCALIBRATION_MAGSCALE_Y_def REVOCALIBRATION_MAGSCALE_Z_def
  INERTIALSENSORSETTINGS_ACCELBIAS_X_def INERTIALSENSORSETTINGS_ACCELBIAS_Y_def
  INERTIALSENSORSETTINGS_ACCELBIAS_Z_def INERTIALSENSORSETTINGS_ACCELSCALE_X_def
  INERTIALSENSORSETTINGS_GYROSCALE_X_def ATTITUDESETTINGS_BOARDROTATION_ROLL_def
  ATTITUDESETTINGS_BOARDROTATION_PITCH_def ATTITUDESETTINGS_BOARDROTATION_YAW_def

lemma feq_refl_iff: "feq a a = (\<not> isnan a)"
  by (cases a) (simp_all add: isnan_def)


lemma not_pos_if_le_zero: "(a::cfloat) \<le> 0 \<Longrightarrow> \<not> 0 < a"
  by (cases a) (simp_all add: zero_cfloat_def)

lemmas cfloat_defs = zero_cfloat_def minus_cfloat_def zero3_def

lemmas ex_defs = ex_accel_def ex_gyro_def ex_mag_def calibrated_world_def rotated_world_def
  start_world_def CoordinateConversions_ref_def rot_mult_ref_def

section \<open>Calibration of the accelerometer\<close>

text \<open>
  Claim C1. For every raw accelerometer sample the published record is
  \<open>out[i] = raw[i] * scale[i] - bias[i]\<close> on each axis, rotated by \<open>Rbs\<close> exactly when
  the rotate flag is set, with the temperature passed through. With the flag clear each
  published axis is given by that axis's raw value, scale and bias alone. The record is
  written to the store by one \<^verbatim>\<open>AccelsSet\<close>, and nothing else of the state changes.
\<close>

theorem update_accels_calibrated:
  "(rotate_flag w = 0 \<longrightarrow>
      AccelsObj (update_accels L accels w) =
        \<lparr>Accels_x = accel_x accels * nth3 (accel_scale w) 0 - nth3 (accel_bias w) 0,
         Accels_y = accel_y accels * nth3 (accel_scale w) 1 - nth3 (accel_bias w) 1,
         Accels_z = accel_z accels * nth3 (accel_scale w) 2 - nth3 (accel_bias w) 2,
         Accels_temperature = accel_temp accels\<rparr>)
   \<and> (rotate_flag w \<noteq> 0 \<longrightarrow>
      AccelsObj (update_accels L accels w) =
        (let rotated = rot_mult L (Rbs w)
               (accel_x accels * nth3 (accel_scale w) 0 - nth3 (accel_bias w) 0,
                accel_y accels * nth3 (accel_scale w) 1 - nth3 (accel_bias w) 1,
                accel_z accels * nth3 (accel_scale w) 2 - nth3 (accel_bias w) 2) False
         in \<lparr>Accels_x = nth3 rotated 0, Accels_y = nth3 rotated 1, Accels_z = nth3 rotated 2,
             Accels_temperature = accel_temp accels\<rparr>))
   \<and> trace (update_accels L accels w) = trace w @ [EvAccelsSet (AccelsObj (update_accels L accels w))]
   \<and> update_accels L accels w = w\<lparr>AccelsObj := AccelsObj (update_accels L accels w),
                                   trace := trace (update_accels L accels w)\<rparr>"
  by (simp add: update_accels_def AccelsSet_def Let_def)

theorem update_accels_calibrated_witness:
  "rotate_flag calibrated_world = 0
   \<and> AccelsObj (update_accels CoordinateConversions_ref ex_accel calibrated_world)
       = \<lparr>Accels_x = Fin 1.5, Accels_y = Fin 2, Accels_z = Fin 3, Accels_temperature = Fin 25\<rparr>
   \<and> rotate_flag rotated_world \<noteq> 0
   \<and> AccelsObj (update_accels CoordinateConversions_ref ex_accel rotated_world)
       = \<lparr>Accels_x = Fin 2, Accels_y = Fin (- 1.5), Accels_z = Fin 3, Accels_temperature = Fin 25\<rparr>"
  using update_accels_calibrated [of calibrated_world CoordinateConversions_ref ex_accel]
    update_accels_calibrated [of rotated_world CoordinateConversions_ref ex_accel]
  by (simp add: cfloat_defs ex_defs)

section \<open>Calibration of the gyroscope\<close>

text \<open>
  Claim C6. For every raw gyro sample, let \<open>rs\<close> be the scaled value
  \<open>raw[i] * scale[i]\<close>, rotated by \<open>Rbs\<close> when the rotate flag is set. With the
  bias-correction mode disabled the published gyro is exactly \<open>rs\<close>; with the mode enabled
  it is \<open>rs\<close> minus the dynamic gyro bias, so the bias is subtracted after scaling and
  rotation, and only in that mode. There is no static bias term, and the temperature is
  passed through.
\<close>

theorem update_gyros_bias_iff_mode:
  "(let scaled = (gyro_x gyros * nth3 (gyro_scale w) 0,
                  gyro_y gyros * nth3 (gyro_scale w) 1,
                  gyro_z gyros * nth3 (gyro_scale w) 2);
        rs = (if rotate_flag w \<noteq> 0 then rot_mult L (Rbs w) scaled False else scaled)
    in (\<not> bias_correct_gyro w \<longrightarrow>
          GyrosObj (update_gyros L gyros w) =
            \<lparr>Gyros_x = nth3 rs 0, Gyros_y = nth3 rs 1, Gyros_z = nth3 rs 2,
             Gyros_temperature = gyro_temp gyros\<rparr>)
     \<and> (bias_correct_gyro w \<longrightarrow>
          GyrosObj (update_gyros L gyros w) =
            \<lparr>Gyros_x = nth3 rs 0 - GyrosBias_x (GyrosBiasObj w),
             Gyros_y = nth3 rs 1 - GyrosBias_y (GyrosBiasObj w),
             Gyros_z = nth3 rs 2 - GyrosBias_z (GyrosBiasObj w),
             Gyros_temperature = gyro_temp gyros\<rparr>))
   \<and> trace (update_gyros L gyros w) = trace w @ [EvGyrosSet (GyrosObj (update_gyros L gyros w))]"
  by (simp add: update_gyros_def GyrosSet_def Let_def)

theorem update_gyros_bias_iff_mode_witness:
  "bias_correct_gyro rotated_world
   \<and> GyrosObj (update_gyros CoordinateConversions_ref ex_gyro rotated_world)
       = \<lparr>Gyros_x = Fin 0, Gyros_y = Fin (- 3), Gyros_z = Fin (- 0.5), Gyros_temperature = Fin 30\<rparr>
   \<and> \<not> bias_correct_gyro (rotated_world\<lparr>bias_correct_gyro := False\<rparr>)
   \<and> GyrosObj (update_gyros CoordinateConversions_ref ex_gyro (rotated_world\<lparr>bias_correct_gyro := False\<rparr>))
       = \<lparr>Gyros_x = Fin 1, Gyros_y = Fin (- 2), Gyros_z = Fin 0.5, Gyros_temperature = Fin 30\<rparr>"
  using update_gyros_bias_iff_mode [of ex_gyro rotated_world CoordinateConversions_ref]
    update_gyros_bias_iff_mode [of ex_gyro "rotated_world\<lparr>bias_correct_gyro := False\<rparr>" CoordinateConversions_ref]
  by (simp add: cfloat_defs ex_defs)

section \<open>Calibration of the magnetometer\<close>

text \<open>
  Claim C9. When the bias-nulling rate is zero or negative, \<^verbatim>\<open>update_mags\<close> publishes the
  scaled, statically bias-corrected, rotated value and changes nothing but the published
  record and the trace: the adaptive bias estimate is not subtracted and not written.
  It is not read either: the run from a state with any other estimate \<open>b\<close> is the same
  run, with \<open>b\<close> left in place.
\<close>

theorem update_mags_rate_not_positive:
  assumes "MagBiasNullingRate (insSettings w) \<le> 0"
  shows "(let mags = (mag_x mag * nth3 (mag_scale w) 0 - nth3 (mag_bias w) 0,
                      mag_y mag * nth3 (mag_scale w) 1 - nth3 (mag_bias w) 1,
                      mag_z mag * nth3 (mag_scale w) 2 - nth3 (mag_bias w) 2);
              v = (if rotate_flag w \<noteq> 0 then rot_mult L (Rbs w) mags False else mags);
              magData = \<lparr>Magnetometer_x = nth3 v 0, Magnetometer_y = nth3 v 1,
                         Magnetometer_z = nth3 v 2\<rparr>
          in update_mags L mag w
               = w\<lparr>MagnetometerObj := magData, trace := trace w @ [EvMagnetometerSet magData]\<rparr>)
         \<and> MagBiasObj (update_mags L mag w) = MagBiasObj w
         \<and> (\<forall>b. update_mags L mag (w\<lparr>MagBiasObj := b\<rparr>) = (update_mags L mag w)\<lparr>MagBiasObj := b\<rparr>)"
  using not_pos_if_le_zero [OF assms]
  by (simp add: update_mags_def MagnetometerSet_def Let_def)

theorem update_mags_rate_not_positive_witness:
  "MagBiasNullingRate (insSettings biased_world) \<le> 0
   \<and> MagnetometerObj (update_mags CoordinateConversions_ref ex_mag biased_world)
       = \<lparr>Magnetometer_x = Fin 4, Magnetometer_y = Fin 5, Magnetometer_z = Fin 6\<rparr>
   \<and> MagBiasObj (update_mags CoordinateConversions_ref ex_mag biased_world)
       = \<lparr>MagBias_x = Fin 7, MagBias_y = Fin 7, MagBias_z = Fin 7\<rparr>"
proof -
  have h: "MagBiasNullingRate (insSettings biased_world) \<le> 0"
    by (simp add: biased_world_def cfloat_defs ex_defs)
  have "MagBiasObj (update_mags CoordinateConversions_ref ex_mag biased_world) = MagBiasObj biased_world"
    using update_mags_rate_not_positive [OF h, of ex_mag CoordinateConversions_ref] by blast
  moreover have "MagBiasObj biased_world = \<lparr>MagBias_x = Fin 7, MagBias_y = Fin 7, MagBias_z = Fin 7\<rparr>"
    by (simp add: biased_world_def)
  moreover have "MagnetometerObj (update_mags CoordinateConversions_ref ex_mag biased_world)
       = \<lparr>Magnetometer_x = Fin 4, Magnetometer_y = Fin 5, Magnetometer_z = Fin 6\<rparr>"
    by (simp add: update_mags_def MagnetometerSet_def Let_def biased_world_def cfloat_defs ex_defs)
  ultimately show ?thesis using h by simp
qed

section \<open>Reloading the settings\<close>

text \<open>
  Claim C7. Every run of the configuration-change callback leaves all three components
  of the stored bias estimate exactly zero, whatever the estimate was before.
\<close>

theorem settingsUpdatedCb_resets_MagBias:
  "MagBias_x (MagBiasObj (settingsUpdatedCb L w)) = Fin 0
   \<and> MagBias_y (MagBiasObj (settingsUpdatedCb L w)) = Fin 0
   \<and> MagBias_z (MagBiasObj (settingsUpdatedCb L w)) = Fin 0"
  by (simp add: settingsUpdatedCb_def MagBiasSet_def Let_def zero_cfloat_def)

section \<open>The guard of the bias estimator\<close>

lemma Magnetometer_update_all:
  "m\<lparr>Magnetometer_x := a, Magnetometer_y := b, Magnetometer_z := c\<rparr>
     = \<lparr>Magnetometer_x = a, Magnetometer_y = b, Magnetometer_z = c\<rparr>"
  by (cases m) simp

lemma MagBias_update_all:
  "m\<lparr>MagBias_x := a, MagBias_y := b, MagBias_z := c\<rparr>
     = \<lparr>MagBias_x = a, MagBias_y = b, MagBias_z = c\<rparr>"
  by (cases m) simp

text \<open>
  Claim C4. For every invocation of the estimator: the measurement comes back with the
  stored estimate subtracted; if any of the three corrections computed from it is NaN,
  the state is left as it is (the stored estimate is not changed and nothing is written);
  otherwise the three corrections are added to the stored estimate, which is written
  back. Whenever \<^verbatim>\<open>update_mags\<close> invokes the estimator (rate above zero) it publishes the
  measurement the estimator returned: the one corrected by the estimate from before the
  update.
\<close>

theorem magOffsetEstimation_nan_guard:
  "(let bias = MagBiasObj w;
        corrected = \<lparr>Magnetometer_x = Magnetometer_x mag - MagBias_x bias,
                     Magnetometer_y = Magnetometer_y mag - MagBias_y bias,
                     Magnetometer_z = Magnetometer_z mag - MagBias_z bias\<rparr>;
        delta = magOffsetEstimation_delta L corrected w
    in fst (magOffsetEstimation L mag w) = corrected
       \<and> (isnan (nth3 delta 0) \<or> isnan (nth3 delta 1) \<or> isnan (nth3 delta 2) \<longrightarrow>
            snd (magOffsetEstimation L mag w) = w)
       \<and> (\<not> (isnan (nth3 delta 0) \<or> isnan (nth3 delta 1) \<or> isnan (nth3 delta 2)) \<longrightarrow>
            snd (magOffsetEstimation L mag w) =
              MagBiasSet \<lparr>MagBias_x = MagBias_x bias + nth3 delta 0,
                          MagBias_y = MagBias_y bias + nth3 delta 1,
                          MagBias_z = MagBias_z bias + nth3 delta 2\<rparr> w))
   \<and> (0 < MagBiasNullingRate (insSettings w) \<longrightarrow>
        (let mags = (mag_x raw * nth3 (mag_scale w) 0 - nth3 (mag_bias w) 0,
                     mag_y raw * nth3 (mag_scale w) 1 - nth3 (mag_bias w) 1,
                     mag_z raw * nth3 (mag_scale w) 2 - nth3 (mag_bias w) 2);
             v = (if rotate_flag w \<noteq> 0 then rot_mult L (Rbs w) mags False else mags);
             magData = \<lparr>Magnetometer_x = nth3 v 0, Magnetometer_y = nth3 v 1,
                        Magnetometer_z = nth3 v 2\<rparr>
         in update_mags L raw w =
              MagnetometerSet (fst (magOffsetEstimation L magData w))
                (snd (magOffsetEstimation L magData w))))"
  by (simp add: magOffsetEstimation_def update_mags_def Let_def feq_refl_iff split_beta
      Magnetometer_update_all MagBias_update_all)


lemma sqrt_25: "sqrt 25 = 5"
  by (rule real_sqrt_unique) simp_all

lemma sqrt_100: "sqrt 100 = 10"
  by (rule real_sqrt_unique) simp_all

lemmas estimator_defs = magOffsetEstimation_delta_def magOffsetEstimation_locals_def M_PI_def Let_def nulling_world_def
  ex_mag_vertical_def signed_inf_def isnan_def

lemma nulling_rate: "0 < MagBiasNullingRate (insSettings nulling_world)"
  by (simp add: nulling_world_def cfloat_defs ex_defs)

lemma delta_vertical:
  "magOffsetEstimation_delta CoordinateConversions_ref
     \<lparr>Magnetometer_x = Fin 0, Magnetometer_y = Fin 0, Magnetometer_z = Fin 5\<rparr> nulling_world
   = (NaN, NaN, Fin 1.5)"
  by (simp add: estimator_defs cfloat_defs ex_defs sqrt_100)

lemma delta_ex:
  "magOffsetEstimation_delta CoordinateConversions_ref
     \<lparr>Magnetometer_x = Fin 3, Magnetometer_y = Fin 4, Magnetometer_z = Fin 5\<rparr> nulling_world
   = (Fin (- 1.5), Fin (- 2), Fin 1.5)"
  by (simp add: estimator_defs cfloat_defs ex_defs sqrt_100 sqrt_25)


theorem magOffsetEstimation_nan_guard_witness:
  "0 < MagBiasNullingRate (insSettings nulling_world)
   \<and> isnan (nth3 (magOffsetEstimation_delta CoordinateConversions_ref
         \<lparr>Magnetometer_x = Fin 0, Magnetometer_y = Fin 0, Magnetometer_z = Fin 5\<rparr> nulling_world) 0)
   \<and> MagnetometerObj (update_mags CoordinateConversions_ref ex_mag_vertical nulling_world)
       = \<lparr>Magnetometer_x = Fin 0, Magnetometer_y = Fin 0, Magnetometer_z = Fin 5\<rparr>
   \<and> MagBiasObj (update_mags CoordinateConversions_ref ex_mag_vertical nulling_world)
       = \<lparr>MagBias_x = Fin 1, MagBias_y = Fin 1, MagBias_z = Fin 1\<rparr>
   \<and> \<not> (isnan (Fin (- 1.5)) \<or> isnan (Fin (- 2)) \<or> isnan (Fin 1.5))
   \<and> MagnetometerObj (update_mags CoordinateConversions_ref ex_mag nulling_world)
       = \<lparr>Magnetometer_x = Fin 3, Magnetometer_y = Fin 4, Magnetometer_z = Fin 5\<rparr>
   \<and> MagBiasObj (update_mags CoordinateConversions_ref ex_mag nulling_world)
       = \<lparr>MagBias_x = Fin (- 0.5), MagBias_y = Fin (- 1), MagBias_z = Fin 2.5\<rparr>"
proof -
  let ?L = CoordinateConversions_ref
  let ?v = "\<lparr>Magnetometer_x = Fin 1, Magnetometer_y = Fin 1, Magnetometer_z = Fin 6\<rparr>"
  let ?m = "\<lparr>Magnetometer_x = Fin 4, Magnetometer_y = Fin 5, Magnetometer_z = Fin 6\<rparr>"
  have bias: "MagBiasObj nulling_world = \<lparr>MagBias_x = Fin 1, MagBias_y = Fin 1, MagBias_z = Fin 1\<rparr>"
    by (simp add: nulling_world_def)
  have v: "fst (magOffsetEstimation ?L ?v nulling_world)
             = \<lparr>Magnetometer_x = Fin 0, Magnetometer_y = Fin 0, Magnetometer_z = Fin 5\<rparr>
           \<and> snd (magOffsetEstimation ?L ?v nulling_world) = nulling_world"
    using magOffsetEstimation_nan_guard [of nulling_world ?v ?L ex_mag_vertical]
    by (simp add: Let_def bias delta_vertical cfloat_defs isnan_def)
  have m: "fst (magOffsetEstimation ?L ?m nulling_world)
             = \<lparr>Magnetometer_x = Fin 3, Magnetometer_y = Fin 4, Magnetometer_z = Fin 5\<rparr>
           \<and> snd (magOffsetEstimation ?L ?m nulling_world)
             = MagBiasSet \<lparr>MagBias_x = Fin (- 0.5), MagBias_y = Fin (- 1), MagBias_z = Fin 2.5\<rparr> nulling_world"
    using magOffsetEstimation_nan_guard [of nulling_world ?m ?L ex_mag]
    by (simp add: Let_def bias delta_ex cfloat_defs isnan_def)
  have uv: "update_mags ?L ex_mag_vertical nulling_world
              = MagnetometerSet (fst (magOffsetEstimation ?L ?v nulling_world))
                  (snd (magOffsetEstimation ?L ?v nulling_world))"
    using magOffsetEstimation_nan_guard [of nulling_world ?v ?L ex_mag_vertical] nulling_rate
    by (simp add: Let_def ex_mag_vertical_def nulling_world_def cfloat_defs ex_defs)
  have um: "update_mags ?L ex_mag nulling_world
              = MagnetometerSet (fst (magOffsetEstimation ?L ?m nulling_world))
                  (snd (magOffsetEstimation ?L ?m nulling_world))"
    using magOffsetEstimation_nan_guard [of nulling_world ?m ?L ex_mag] nulling_rate
    by (simp add: Let_def nulling_world_def cfloat_defs ex_defs)
  show ?thesis
    by (simp add: uv um v m bias nulling_rate delta_vertical isnan_def MagnetometerSet_def MagBiasSet_def)
qed

section \<open>The acquisition loop\<close>

lemma SensorsTask_head_eq:
  "SensorsTask_head w = w\<lparr>error := False, trace := trace w @ head_events (error w)\<rparr>"
  by (cases "error w")
    (simp_all add: SensorsTask_head_def head_events_def PIOS_WDG_UpdateFlag_def vTaskDelayUntil_def
      AlarmsSet_def AlarmsClear_def Let_def)

lemma faulted_cycle:
  "error w \<Longrightarrow> SensorsTask_cycle L w
     = SensorsTask_body L (w\<lparr>error := False, trace := trace w @ head_events True\<rparr>)"
  by (simp add: SensorsTask_cycle_def SensorsTask_head_eq)

text \<open>
  Claim C5. In a cycle that finds the gyro queue missing or empty, the fault flag is set
  and the rest of the cycle is skipped: apart from the flag and the calls made at the
  head of the loop, the state is the one the cycle started from, so no accel, gyro or
  mag sample is taken or processed and no record is published. Whatever the drivers
  deliver next, the pass that the loop makes next signals the watchdog, waits, raises the
  critical alarm and clears the fault flag, and only then runs the rest of the pass.
\<close>

theorem gyro_unavailable_faults:
  assumes "queue_gyro w = None \<or> queue_gyro w = Some []"
  shows "SensorsTask_cycle L w
           = w\<lparr>error := True,
               trace := trace w @ (if error w
                 then [EvWDGUpdateFlag, EvTaskDelayUntil, EvAlarmsSet SYSTEMALARMS_ALARM_CRITICAL]
                 else [EvAlarmsClear])\<rparr>
         \<and> (\<forall>d. SensorsTask_loop L [d] (SensorsTask_cycle L w)
               = SensorsTask_body L
                   ((deliver d (SensorsTask_cycle L w))
                      \<lparr>error := False,
                       trace := trace (SensorsTask_cycle L w)
                         @ [EvWDGUpdateFlag, EvTaskDelayUntil, EvAlarmsSet SYSTEMALARMS_ALARM_CRITICAL]\<rparr>))"
proof -
  have c: "SensorsTask_cycle L w = w\<lparr>error := True, trace := trace w @ head_events (error w)\<rparr>"
    using assms
    by (auto simp: SensorsTask_cycle_def SensorsTask_body_def SensorsTask_head_eq)
  have e: "error (deliver d (SensorsTask_cycle L w))"
    and t: "trace (deliver d (SensorsTask_cycle L w)) = trace (SensorsTask_cycle L w)" for d
    by (simp_all add: c deliver_def)
  have n: "SensorsTask_cycle L (deliver d (SensorsTask_cycle L w))
               = SensorsTask_body L
                   ((deliver d (SensorsTask_cycle L w))
                      \<lparr>error := False,
                       trace := trace (SensorsTask_cycle L w) @ head_events True\<rparr>)" for d
    using faulted_cycle [OF e [of d]] by (simp only: t)
  have l: "SensorsTask_loop L [d] x = SensorsTask_cycle L (deliver d x)" for d x
    by simp
  show ?thesis
    unfolding l using c n by (simp add: head_events_def)
qed


lemmas task_defs = SensorsTask_body_def update_accels_def update_gyros_def update_mags_def
  AccelsSet_def GyrosSet_def MagnetometerSet_def PIOS_WDG_UpdateFlag_def Let_def

text \<open>
  Claim C8. In a cycle that receives a gyro and an accel sample and finds the mag queue
  absent or empty, the accel record and then the gyro record are published as
  \<^verbatim>\<open>update_accels\<close> and \<^verbatim>\<open>update_gyros\<close> compute them, the watchdog is signalled, no mag
  record is published (the magnetometer object and the bias estimate stay as they were and
  the trace has no further call), and the fault flag is clear at the end of the cycle.
\<close>

theorem mag_absent_is_no_fault:
  assumes "queue_gyro w = Some (g # gq)" and "queue_accel w = Some (a # aq)"
    and "queue_mag w = None \<or> queue_mag w = Some []"
  shows "SensorsTask_cycle L w
           = PIOS_WDG_UpdateFlag (update_gyros L g (update_accels L a
               ((SensorsTask_head w)\<lparr>queue_gyro := Some gq, queue_accel := Some aq\<rparr>)))
         \<and> AccelsObj (SensorsTask_cycle L w) = AccelsObj (update_accels L a w)
         \<and> GyrosObj (SensorsTask_cycle L w) = GyrosObj (update_gyros L g w)
         \<and> trace (SensorsTask_cycle L w)
             = trace (SensorsTask_head w)
               @ [EvAccelsSet (AccelsObj (update_accels L a w)),
                  EvGyrosSet (GyrosObj (update_gyros L g w)), EvWDGUpdateFlag]
         \<and> MagnetometerObj (SensorsTask_cycle L w) = MagnetometerObj w
         \<and> MagBiasObj (SensorsTask_cycle L w) = MagBiasObj w
         \<and> \<not> error (SensorsTask_cycle L w)"
proof -
  let ?w1 = "(SensorsTask_head w)\<lparr>queue_gyro := Some gq, queue_accel := Some aq\<rparr>"
  have q: "queue_gyro (SensorsTask_head w) = Some (g # gq)"
    "queue_accel (SensorsTask_head w) = Some (a # aq)"
    "queue_mag (SensorsTask_head w) = None \<or> queue_mag (SensorsTask_head w) = Some []"
    using assms by (simp_all add: SensorsTask_head_eq)
  have m: "queue_mag (update_gyros L g (update_accels L a ?w1)) = queue_mag w"
    by (simp add: update_gyros_def update_accels_def GyrosSet_def AccelsSet_def Let_def
        SensorsTask_head_eq)
  have c: "SensorsTask_cycle L w = PIOS_WDG_UpdateFlag (update_gyros L g (update_accels L a ?w1))"
    using assms(3)
  proof
    assume "queue_mag w = None"
    with q m show ?thesis
      by (simp add: SensorsTask_cycle_def SensorsTask_body_def Let_def)
  next
    assume e: "queue_mag w = Some []"
    have idem: "x\<lparr>queue_mag := Some []\<rparr> = x" if "queue_mag x = Some []" for x :: world
      using that by (cases x) simp
    from q m e show ?thesis
      by (simp add: SensorsTask_cycle_def SensorsTask_body_def Let_def idem)
  qed
  have a: "AccelsObj (update_accels L a ?w1) = AccelsObj (update_accels L a w)"
    "AccelsObj (update_gyros L g (update_accels L a ?w1)) = AccelsObj (update_accels L a w)"
    by (simp_all add: update_gyros_def update_accels_def GyrosSet_def AccelsSet_def Let_def
        SensorsTask_head_eq)
  have g: "GyrosObj (update_gyros L g (update_accels L a ?w1)) = GyrosObj (update_gyros L g w)"
    by (simp add: update_gyros_def update_accels_def GyrosSet_def AccelsSet_def Let_def
        SensorsTask_head_eq)
  have t: "trace (update_gyros L g (update_accels L a ?w1))
             = trace (SensorsTask_head w)
               @ [EvAccelsSet (AccelsObj (update_accels L a ?w1)),
                  EvGyrosSet (GyrosObj (update_gyros L g (update_accels L a ?w1)))]"
    by (simp add: update_gyros_def update_accels_def GyrosSet_def AccelsSet_def Let_def)
  have o: "MagnetometerObj (update_gyros L g (update_accels L a ?w1)) = MagnetometerObj w"
    "MagBiasObj (update_gyros L g (update_accels L a ?w1)) = MagBiasObj w"
    "\<not> error (update_gyros L g (update_accels L a ?w1))"
    by (simp_all add: update_gyros_def update_accels_def GyrosSet_def AccelsSet_def Let_def
        SensorsTask_head_eq)
  show ?thesis
    unfolding c using a g t o by (simp add: PIOS_WDG_UpdateFlag_def)
qed

text \<open>
  Claim C10. In a cycle that receives a gyro sample and then finds the accel queue missing
  or empty, the gyro sample has left its queue but is not published: the gyro object is
  unchanged, the only calls made are those of the head of the loop, and the fault flag is
  set.
\<close>

theorem accel_unavailable_drops_gyro:
  assumes "queue_gyro w = Some (g # gq)"
    and "queue_accel w = None \<or> queue_accel w = Some []"
  shows "SensorsTask_cycle L w
           = w\<lparr>queue_gyro := Some gq, error := True,
               trace := trace w @ (if error w
                 then [EvWDGUpdateFlag, EvTaskDelayUntil, EvAlarmsSet SYSTEMALARMS_ALARM_CRITICAL]
                 else [EvAlarmsClear])\<rparr>
         \<and> GyrosObj (SensorsTask_cycle L w) = GyrosObj w
         \<and> queue_gyro (SensorsTask_cycle L w) = Some gq"
  using assms
  by (auto simp: SensorsTask_cycle_def SensorsTask_head_eq SensorsTask_body_def head_events_def)


lemmas queue_defs = starved_world_def fed_world_def accel_starved_world_def ex_delivery_def
  deliver_def

theorem gyro_unavailable_faults_witness:
  "queue_gyro starved_world = Some []
   \<and> error (SensorsTask_cycle CoordinateConversions_ref starved_world)
   \<and> trace (SensorsTask_cycle CoordinateConversions_ref starved_world) = [EvAlarmsClear]
   \<and> AccelsObj (SensorsTask_cycle CoordinateConversions_ref starved_world) = AccelsObj starved_world
   \<and> trace (SensorsTask_loop CoordinateConversions_ref [ex_delivery]
        (SensorsTask_cycle CoordinateConversions_ref starved_world))
       = [EvAlarmsClear, EvWDGUpdateFlag, EvTaskDelayUntil, EvAlarmsSet SYSTEMALARMS_ALARM_CRITICAL,
          EvAccelsSet \<lparr>Accels_x = Fin 1.5, Accels_y = Fin 2, Accels_z = Fin 3,
                       Accels_temperature = Fin 25\<rparr>,
          EvGyrosSet \<lparr>Gyros_x = Fin 1, Gyros_y = Fin 0, Gyros_z = Fin (- 0.5),
                      Gyros_temperature = Fin 30\<rparr>,
          EvWDGUpdateFlag]"
proof -
  let ?L = CoordinateConversions_ref
  have h: "queue_gyro starved_world = None \<or> queue_gyro starved_world = Some []"
    by (simp add: starved_world_def)
  note T = gyro_unavailable_faults [OF h, of ?L]
  have e: "\<not> error starved_world" "trace starved_world = []"
    by (simp_all add: starved_world_def ex_defs)
  have c1: "SensorsTask_cycle ?L starved_world = starved_world\<lparr>error := True, trace := [EvAlarmsClear]\<rparr>"
    using T [THEN conjunct1] by (simp add: e)
  have c2: "SensorsTask_loop ?L [ex_delivery] (SensorsTask_cycle ?L starved_world)
     = SensorsTask_body ?L ((deliver ex_delivery (SensorsTask_cycle ?L starved_world))
         \<lparr>error := False,
          trace := [EvAlarmsClear, EvWDGUpdateFlag, EvTaskDelayUntil,
                    EvAlarmsSet SYSTEMALARMS_ALARM_CRITICAL]\<rparr>)"
    using T [THEN conjunct2, THEN spec, of ex_delivery] by (simp add: c1)
  have t2: "trace (SensorsTask_body ?L ((deliver ex_delivery (starved_world\<lparr>error := True, trace := [EvAlarmsClear]\<rparr>))
         \<lparr>error := False,
          trace := [EvAlarmsClear, EvWDGUpdateFlag, EvTaskDelayUntil,
                    EvAlarmsSet SYSTEMALARMS_ALARM_CRITICAL]\<rparr>))
       = [EvAlarmsClear, EvWDGUpdateFlag, EvTaskDelayUntil, EvAlarmsSet SYSTEMALARMS_ALARM_CRITICAL,
          EvAccelsSet \<lparr>Accels_x = Fin 1.5, Accels_y = Fin 2, Accels_z = Fin 3,
                       Accels_temperature = Fin 25\<rparr>,
          EvGyrosSet \<lparr>Gyros_x = Fin 1, Gyros_y = Fin 0, Gyros_z = Fin (- 0.5),
                      Gyros_temperature = Fin 30\<rparr>,
          EvWDGUpdateFlag]"
    by (simp add: task_defs queue_defs cfloat_defs ex_defs)
  have "queue_gyro starved_world = Some []"
    by (simp add: starved_world_def)
  then show ?thesis
    unfolding c2 unfolding c1 using t2 by simp
qed

theorem mag_absent_is_no_fault_witness:
  "queue_gyro fed_world = Some [ex_gyro] \<and> queue_accel fed_world = Some [ex_accel]
   \<and> queue_mag fed_world = Some []
   \<and> trace (SensorsTask_cycle CoordinateConversions_ref fed_world)
       = [EvAlarmsClear,
          EvAccelsSet \<lparr>Accels_x = Fin 1.5, Accels_y = Fin 2, Accels_z = Fin 3,
                       Accels_temperature = Fin 25\<rparr>,
          EvGyrosSet \<lparr>Gyros_x = Fin 1, Gyros_y = Fin 0, Gyros_z = Fin (- 0.5),
                      Gyros_temperature = Fin 30\<rparr>,
          EvWDGUpdateFlag]
   \<and> MagnetometerObj (SensorsTask_cycle CoordinateConversions_ref fed_world)
       = \<lparr>Magnetometer_x = Fin 0, Magnetometer_y = Fin 0, Magnetometer_z = Fin 0\<rparr>
   \<and> \<not> error (SensorsTask_cycle CoordinateConversions_ref fed_world)"
proof -
  let ?L = CoordinateConversions_ref
  have h: "queue_gyro fed_world = Some (ex_gyro # [])" "queue_accel fed_world = Some (ex_accel # [])"
    "queue_mag fed_world = None \<or> queue_mag fed_world = Some []"
    by (simp_all add: fed_world_def)
  note T = mag_absent_is_no_fault [OF h, of ?L]
  have hd: "trace (SensorsTask_head fed_world) = [EvAlarmsClear]"
    by (simp add: SensorsTask_head_eq head_events_def fed_world_def ex_defs)
  have a: "AccelsObj (update_accels ?L ex_accel fed_world)
      = \<lparr>Accels_x = Fin 1.5, Accels_y = Fin 2, Accels_z = Fin 3, Accels_temperature = Fin 25\<rparr>"
    by (simp add: task_defs queue_defs cfloat_defs ex_defs)
  have g: "GyrosObj (update_gyros ?L ex_gyro fed_world)
      = \<lparr>Gyros_x = Fin 1, Gyros_y = Fin 0, Gyros_z = Fin (- 0.5), Gyros_temperature = Fin 30\<rparr>"
    by (simp add: task_defs queue_defs cfloat_defs ex_defs)
  have m: "MagnetometerObj fed_world
      = \<lparr>Magnetometer_x = Fin 0, Magnetometer_y = Fin 0, Magnetometer_z = Fin 0\<rparr>"
    by (simp add: queue_defs cfloat_defs ex_defs)
  from T have "trace (SensorsTask_cycle ?L fed_world)
             = trace (SensorsTask_head fed_world)
               @ [EvAccelsSet (AccelsObj (update_accels ?L ex_accel fed_world)),
                  EvGyrosSet (GyrosObj (update_gyros ?L ex_gyro fed_world)), EvWDGUpdateFlag]"
    and "MagnetometerObj (SensorsTask_cycle ?L fed_world) = MagnetometerObj fed_world"
    and "\<not> error (SensorsTask_cycle ?L fed_world)"
    by blast+
  moreover have "queue_gyro fed_world = Some [ex_gyro]" "queue_accel fed_world = Some [ex_accel]"
    "queue_mag fed_world = Some []"
    by (simp_all add: fed_world_def)
  ultimately show ?thesis
    by (simp add: hd a g m)
qed

theorem accel_unavailable_drops_gyro_witness:
  "queue_gyro accel_starved_world = Some [ex_gyro] \<and> queue_accel accel_starved_world = Some []
   \<and> queue_gyro (SensorsTask_cycle CoordinateConversions_ref accel_starved_world) = Some []
   \<and> GyrosObj (SensorsTask_cycle CoordinateConversions_ref accel_starved_world)
       = \<lparr>Gyros_x = Fin 0, Gyros_y = Fin 0, Gyros_z = Fin 0, Gyros_temperature = Fin 0\<rparr>
   \<and> trace (SensorsTask_cycle CoordinateConversions_ref accel_starved_world) = [EvAlarmsClear]
   \<and> error (SensorsTask_cycle CoordinateConversions_ref accel_starved_world)"
proof -
  let ?L = CoordinateConversions_ref
  have h: "queue_gyro accel_starved_world = Some (ex_gyro # [])"
    "queue_accel accel_starved_world = None \<or> queue_accel accel_starved_world = Some []"
    by (simp_all add: accel_starved_world_def)
  have e: "\<not> error accel_starved_world" "trace accel_starved_world = []"
    "GyrosObj accel_starved_world
       = \<lparr>Gyros_x = Fin 0, Gyros_y = Fin 0, Gyros_z = Fin 0, Gyros_temperature = Fin 0\<rparr>"
    by (simp_all add: accel_starved_world_def cfloat_defs ex_defs)
  have c: "SensorsTask_cycle ?L accel_starved_world
             = accel_starved_world\<lparr>queue_gyro := Some [], error := True, trace := [EvAlarmsClear]\<rparr>"
    using accel_unavailable_drops_gyro [OF h, of ?L, THEN conjunct1] by (simp add: e)
  have "queue_gyro accel_starved_world = Some [ex_gyro]" "queue_accel accel_starved_world = Some []"
    by (simp_all add: accel_starved_world_def)
  then show ?thesis
    unfolding c using e by simp
qed

section \<open>The scales loaded by the settings callback\<close>

text \<open>
  Claim C3 says that a reload stores, for each axis, the configured accel scale and the
  configured gyro scale of that axis. The callback does so for the accel bias (and for
  the mag bias and scale), but lines 427--432 index both scale fields with the X macro
  three times: on a configuration with accel scales 1, 2, 3 and gyro scales 4, 5, 6 the
  stored scales are 1, 1, 1 and 4, 4, 4, while the stored accel bias is 7, 8, 9 as
  configured.
\<close>

theorem settingsUpdatedCb_scale_uses_X_only:
  "AccelScale (InertialSensorSettingsObj per_axis_world) = (Fin 1, Fin 2, Fin 3)
   \<and> GyroScale (InertialSensorSettingsObj per_axis_world) = (Fin 4, Fin 5, Fin 6)
   \<and> accel_scale (settingsUpdatedCb CoordinateConversions_ref per_axis_world) = (Fin 1, Fin 1, Fin 1)
   \<and> gyro_scale (settingsUpdatedCb CoordinateConversions_ref per_axis_world) = (Fin 4, Fin 4, Fin 4)
   \<and> accel_bias (settingsUpdatedCb CoordinateConversions_ref per_axis_world) = (Fin 7, Fin 8, Fin 9)"
  by (simp add: settingsUpdatedCb_def MagBiasSet_def Let_def per_axis_world_def start_world_def
      index_macros)

section \<open>The bias estimator on identical measurements\<close>










text \<open>With nothing rounded, the estimator is the one of the sections above.\<close>

lemma rounded_Fin: "rounded Fin a = a"
  by (cases a) simp_all

lemma magOffsetEstimation_rnd_locals_exact:
  "magOffsetEstimation_rnd_locals Fin L mag w = magOffsetEstimation_locals L mag w"
  by (simp add: magOffsetEstimation_rnd_locals_def magOffsetEstimation_locals_def fadd_def
      fmul_def fsqrt_def fcos_def fsin_def rounded_Fin Let_def)

lemma magOffsetEstimation_rnd_exact:
  "magOffsetEstimation_rnd Fin L mag w = magOffsetEstimation L mag w"
  by (simp add: magOffsetEstimation_rnd_def magOffsetEstimation_def
      magOffsetEstimation_rnd_delta_def magOffsetEstimation_delta_def
      magOffsetEstimation_rnd_locals_exact fadd_def fsub_def fmul_def fdiv_def rounded_Fin
      Let_def)

lemma feq_iff: "feq a b = (a = b \<and> a \<noteq> NaN)"
  by (cases a; cases b) simp_all













































end
